theory Spec2Isabelle
  imports Complex_Main "HOL-Library.AList"
begin

section \<open>Python and NumPy values\<close>

text \<open>
  The development embeds \<^verbatim>\<open>src/pywavesurfer/ws.py\<close> under the semantics of Python 3
  (CPython 3.11) with NumPy 1.x, the last line of NumPy that has \<^verbatim>\<open>ndarray.tostring\<close>.

  \<^item> A \<^typ>\<open>string\<close> is a Python \<^verbatim>\<open>str\<close> (or \<^verbatim>\<open>bytes\<close>) whose code points lie below 256.
  \<^item> A Python or NumPy float is a \<open>pyfloat\<close>: a finite value, an infinity or NaN. Finite
    values are exact reals: the rounding of IEEE arithmetic and the sign of zero are not
    represented. Every concrete value evaluated below is exact in binary64 as well.
  \<^item> An exception is a value of type \<open>error\<close>; a computation that may raise returns
    \<open>error + 'a\<close>, with \<open>Inl\<close> for the exception. \<open>KeyError k\<close> is the exception of a
    missing key \<open>k\<close> as well as the one the loader raises with a message. \<open>H5OpenError\<close>
    is the OSError of \<^verbatim>\<open>h5py.File\<close> on a file that is not an HDF5 container.
  \<^item> \<open>Unmodelled\<close> is no exception of Python: it marks an input that leaves the part of
    NumPy represented here (text that is not ASCII, the memory image of a numeric array,
    arrays of byte strings in arithmetic, arrays of more than two axes). What the
    program does there is not represented.
\<close>

datatype error =
    IOError string
  | RuntimeError string
  | KeyError string
  | ValueError
  | TypeError
  | IndexError
  | AttributeError
  | ZeroDivisionError
  | OverflowError
  | H5OpenError
  | Unmodelled

definition and_then :: "error + 'a \<Rightarrow> ('a \<Rightarrow> error + 'b) \<Rightarrow> error + 'b" where
  "and_then m f = (case m of Inl e \<Rightarrow> Inl e | Inr x \<Rightarrow> f x)"

datatype pyfloat = Fin real | PInf | NInf | NaN

subsection \<open>Characters and strings\<close>

definition is_space :: "char \<Rightarrow> bool" where
  \<comment> \<open>the white space that \<^verbatim>\<open>float\<close> strips from a \<^verbatim>\<open>str\<close>, for a code point below 256:
      tab to carriage return, the space, and the spaces U+0085 and U+00A0\<close>
  "is_space c = (let n = (of_char c :: nat) in
     (9 \<le> n \<and> n \<le> 13) \<or> n = 32 \<or> n = 133 \<or> n = 160)"

definition is_digit :: "char \<Rightarrow> bool" where
  "is_digit c = (48 \<le> (of_char c :: nat) \<and> (of_char c :: nat) \<le> 57)"

definition digit_val :: "char \<Rightarrow> nat" where
  "digit_val c = of_char c - 48"

definition lower_char :: "char \<Rightarrow> char" where
  \<comment> \<open>\<^verbatim>\<open>str.lower\<close> on one code point below 256: A-Z and the Latin-1 capitals\<close>
  "lower_char c = (let n = (of_char c :: nat) in
     if (65 \<le> n \<and> n \<le> 90) \<or> (192 \<le> n \<and> n \<le> 222 \<and> n \<noteq> 215)
     then char_of (n + 32) else c)"

definition lower :: "string \<Rightarrow> string" where
  "lower s = map lower_char s"

definition strip :: "string \<Rightarrow> string" where
  "strip s = rev (dropWhile is_space (rev (dropWhile is_space s)))"

subsection \<open>\<^verbatim>\<open>float(str)\<close>\<close>

text \<open>
  The grammar of the Python documentation:
  \<^verbatim>\<open>
  digitpart   ::= digit (["_"] digit)*
  number      ::= [digitpart] "." digitpart | digitpart ["."]
  exponent    ::= ("e" | "E") [sign] digitpart
  floatvalue  ::= [sign] (number [exponent] | "inf" | "infinity" | "nan")
  \<close>
  surrounded by optional whitespace, the words in any case. A string outside the grammar
  raises ValueError. A decimal value at or beyond \<open>2^1024 - 2^970\<close> rounds to infinity.
\<close>

fun digits_tail :: "string \<Rightarrow> string \<times> string" where
  "digits_tail [] = ([], [])"
| "digits_tail [c] = (if is_digit c then ([c], []) else ([], [c]))"
| "digits_tail (c # d # cs) =
     (if is_digit c then (case digits_tail (d # cs) of (ds, r) \<Rightarrow> (c # ds, r))
      else if c = CHR ''_'' \<and> is_digit d then (case digits_tail cs of (ds, r) \<Rightarrow> (d # ds, r))
      else ([], c # d # cs))"

definition digitpart :: "string \<Rightarrow> string \<times> string" where
  \<comment> \<open>the longest digitpart at the head of the string (possibly none) and the rest\<close>
  "digitpart s = (case s of
       [] \<Rightarrow> ([], [])
     | c # cs \<Rightarrow> if is_digit c then (case digits_tail cs of (ds, r) \<Rightarrow> (c # ds, r)) else ([], s))"

definition nat_of_digits :: "string \<Rightarrow> nat" where
  "nat_of_digits ds = foldl (\<lambda>a c. 10 * a + digit_val c) 0 ds"

definition split_sign :: "string \<Rightarrow> bool \<times> string" where
  \<comment> \<open>an optional sign: (is negative, rest)\<close>
  "split_sign s = (case s of
       c # cs \<Rightarrow> if c = CHR ''-'' then (True, cs) else if c = CHR ''+'' then (False, cs) else (False, s)
     | [] \<Rightarrow> (False, s))"

definition parse_exponent :: "string \<Rightarrow> int option" where
  \<comment> \<open>what follows the number: nothing, or a complete exponent\<close>
  "parse_exponent s = (case s of
       [] \<Rightarrow> Some 0
     | c # cs \<Rightarrow>
         if c = CHR ''e'' \<or> c = CHR ''E'' then
           (case split_sign cs of (neg, r) \<Rightarrow>
             (case digitpart r of (ds, r') \<Rightarrow>
               if ds \<noteq> [] \<and> r' = [] then
                 Some (if neg then - int (nat_of_digits ds) else int (nat_of_digits ds))
               else None))
         else None)"

definition parse_number :: "string \<Rightarrow> real option" where
  "parse_number s =
     (case digitpart s of (ip, r1) \<Rightarrow>
       (case (case r1 of
                c # cs \<Rightarrow> if c = CHR ''.'' then
                             (case digitpart cs of (fp, r2) \<Rightarrow>
                                if ip \<noteq> [] \<or> fp \<noteq> [] then Some (fp, r2) else None)
                          else if ip \<noteq> [] then Some ([], r1) else None
              | [] \<Rightarrow> if ip \<noteq> [] then Some ([], r1) else None) of
          None \<Rightarrow> None
        | Some (fp, r2) \<Rightarrow>
            (case parse_exponent r2 of
               None \<Rightarrow> None
             | Some ex \<Rightarrow>
                 (let m = real (nat_of_digits (ip @ fp)); k = ex - int (length fp)
                  in Some (if 0 \<le> k then m * 10 ^ nat k else m / 10 ^ nat (- k))))))"

definition float_of_real :: "real \<Rightarrow> pyfloat" where
  \<comment> \<open>conversion of an exact decimal value: overflow gives an infinity\<close>
  "float_of_real v =
     (if 2 ^ 1024 - 2 ^ 970 \<le> v then PInf
      else if v \<le> - (2 ^ 1024 - 2 ^ 970) then NInf
      else Fin v)"

definition py_float :: "string \<Rightarrow> error + pyfloat" where
  "py_float s =
     (case split_sign (strip s) of (neg, body) \<Rightarrow>
        if lower body = ''inf'' \<or> lower body = ''infinity'' then Inr (if neg then NInf else PInf)
        else if lower body = ''nan'' then Inr NaN
        else (case parse_number body of
                None \<Rightarrow> Inl ValueError
              | Some v \<Rightarrow> Inr (float_of_real (if neg then - v else v))))"

subsection \<open>\<^verbatim>\<open>round\<close>, \<^verbatim>\<open>math.floor\<close> and float division\<close>

definition py_round :: "pyfloat \<Rightarrow> error + int" where
  \<comment> \<open>the built-in \<^verbatim>\<open>round(x)\<close> of Python 3: to the nearest integer, a tie to the even one\<close>
  "py_round x = (case x of
       NaN \<Rightarrow> Inl ValueError
     | PInf \<Rightarrow> Inl OverflowError
     | NInf \<Rightarrow> Inl OverflowError
     | Fin r \<Rightarrow>
         (let f = \<lfloor>r\<rfloor>; d = r - of_int f
          in Inr (if d < 1 / 2 then f else if 1 / 2 < d then f + 1
                  else if even f then f else f + 1)))"

definition py_floor :: "pyfloat \<Rightarrow> error + int" where
  \<comment> \<open>\<^verbatim>\<open>math.floor(x)\<close>\<close>
  "py_floor x = (case x of
       NaN \<Rightarrow> Inl ValueError
     | PInf \<Rightarrow> Inl OverflowError
     | NInf \<Rightarrow> Inl OverflowError
     | Fin r \<Rightarrow> Inr \<lfloor>r\<rfloor>)"

definition eq_int :: "pyfloat \<Rightarrow> int \<Rightarrow> bool" where
  \<comment> \<open>\<^verbatim>\<open>x == n\<close> for a float and an int\<close>
  "eq_int x n = (x = Fin (of_int n))"

definition div_float :: "real \<Rightarrow> pyfloat \<Rightarrow> error + pyfloat" where
  \<comment> \<open>\<^verbatim>\<open>a / x\<close> for Python floats, \<open>a\<close> finite and positive\<close>
  "div_float a x = (case x of
       NaN \<Rightarrow> Inr NaN
     | PInf \<Rightarrow> Inr (Fin 0)
     | NInf \<Rightarrow> Inr (Fin 0)
     | Fin r \<Rightarrow> if r = 0 then Inl ZeroDivisionError else Inr (Fin (a / r)))"

definition div_int :: "real \<Rightarrow> int \<Rightarrow> error + pyfloat" where
  \<comment> \<open>\<^verbatim>\<open>a / n\<close> for a Python float and an int\<close>
  "div_int a n = (if n = 0 then Inl ZeroDivisionError else Inr (Fin (a / of_int n)))"

subsection \<open>\<^verbatim>\<open>str.format\<close> with one replacement field\<close>

text \<open>
  \<^verbatim>\<open>"pre{:spec}post".format(s)\<close> for a string \<open>s\<close>. The format specification is read as
  CPython reads it,
  \<^verbatim>\<open>[[fill]align][sign]["z"]["#"]["0"][width][grouping]["." precision][type]\<close>,
  and what is left after the precision must be at most one character, the type. For a
  string argument the type is \<^verbatim>\<open>s\<close> or absent, and sign, \<^verbatim>\<open>z\<close>, \<^verbatim>\<open>#\<close>, grouping and
  the alignment \<^verbatim>\<open>=\<close> are refused; a string is aligned to the left by default, and
  the flag \<^verbatim>\<open>0\<close> only sets the fill character. Every refusal raises ValueError.
\<close>

record format_spec =
  fill :: char
  align :: char
  has_sign :: bool
  no_neg_zero :: bool
  alternate :: bool
  width :: "nat option"
  grouping :: bool
  precision :: "nat option"
  ftype :: "char option"

definition is_align :: "char \<Rightarrow> bool" where
  "is_align c = (c = CHR ''<'' \<or> c = CHR ''>'' \<or> c = CHR ''='' \<or> c = CHR ''^'')"

definition take_flag :: "(char \<Rightarrow> bool) \<Rightarrow> string \<Rightarrow> bool \<times> string" where
  "take_flag p s = (case s of c # cs \<Rightarrow> if p c then (True, cs) else (False, s) | [] \<Rightarrow> (False, s))"

definition take_int :: "string \<Rightarrow> nat option \<times> string" where
  "take_int s = (let ds = takeWhile is_digit s in
     if ds = [] then (None, s) else (Some (nat_of_digits ds), dropWhile is_digit s))"

definition parse_format_spec :: "string \<Rightarrow> error + format_spec" where
  "parse_format_spec spec =
     (case (case spec of
              f # a # r \<Rightarrow> if is_align a then (Some f, Some a, r)
                           else if is_align f then (None, Some f, a # r)
                           else (None, None, spec)
            | [a] \<Rightarrow> if is_align a then (None, Some a, []) else (None, None, spec)
            | [] \<Rightarrow> (None, None, spec)) of (fl, al, s1) \<Rightarrow>
      (case take_flag (\<lambda>c. c = CHR ''+'' \<or> c = CHR ''-'' \<or> c = CHR '' '') s1 of (sg, s2) \<Rightarrow>
      (case take_flag (\<lambda>c. c = CHR ''z'') s2 of (nz, s3) \<Rightarrow>
      (case take_flag (\<lambda>c. c = CHR ''#'') s3 of (alt, s4) \<Rightarrow>
      (case (if fl = None then take_flag (\<lambda>c. c = CHR ''0'') s4 else (False, s4)) of (zero, s5) \<Rightarrow>
      (case take_int s5 of (w, s6) \<Rightarrow>
      (case take_flag (\<lambda>c. c = CHR '','' \<or> c = CHR ''_'') s6 of (grp, s7) \<Rightarrow>
      (case (case s7 of
               c # cs \<Rightarrow> if c = CHR ''.'' then
                            (case take_int cs of
                               (None, _) \<Rightarrow> Inl ValueError
                             | (Some p, r) \<Rightarrow> Inr (Some p, r))
                         else Inr (None, s7)
             | [] \<Rightarrow> Inr (None, s7)) of
         Inl e \<Rightarrow> Inl e
       | Inr (prec, s8) \<Rightarrow>
           if 1 < length s8 then Inl ValueError
           else Inr \<lparr> fill = (case fl of Some f \<Rightarrow> f
                              | None \<Rightarrow> if zero then CHR ''0'' else CHR '' ''),
                      align = (case al of Some a \<Rightarrow> a | None \<Rightarrow> CHR ''<''),
                      has_sign = sg, no_neg_zero = nz, alternate = alt, width = w,
                      grouping = grp, precision = prec,
                      ftype = (case s8 of c # _ \<Rightarrow> Some c | [] \<Rightarrow> None) \<rparr>))))))))"

definition format_str :: "string \<Rightarrow> string \<Rightarrow> error + string" where
  \<comment> \<open>\<^verbatim>\<open>format(s, spec)\<close> for a string \<open>s\<close>\<close>
  "format_str s spec =
     and_then (parse_format_spec spec) (\<lambda>f.
       if has_sign f \<or> no_neg_zero f \<or> alternate f \<or> grouping f \<or> align f = CHR ''=''
          \<or> (ftype f \<noteq> None \<and> ftype f \<noteq> Some CHR ''s'')
       then Inl ValueError
       else
         (let body = (case precision f of None \<Rightarrow> s | Some p \<Rightarrow> take p s);
              pad = (case width f of None \<Rightarrow> 0 | Some w \<Rightarrow> w - length body);
              left = (if align f = CHR ''>'' then pad
                      else if align f = CHR ''^'' then pad div 2 else 0)
          in Inr (replicate left (fill f) @ body @ replicate (pad - left) (fill f))))"

definition format1 :: "string \<Rightarrow> string \<Rightarrow> string \<Rightarrow> string \<Rightarrow> error + string" where
  \<comment> \<open>\<^verbatim>\<open>(pre + "{:" + spec + "}" + post).format(s)\<close>\<close>
  "format1 pre spec post s = and_then (format_str s spec) (\<lambda>t. Inr (pre @ t @ post))"

section \<open>The HDF5 container and the decoded tree\<close>

text \<open>
  An array is a NumPy array: its element type, its shape and its elements in row-major
  order, or an array of byte strings, each given by its buffer (the
  \<^verbatim>\<open>VersionString\<close> of a WaveSurfer file is such an array, of shape \<open>[]\<close>). A node of the container is what
  \<^verbatim>\<open>h5py\<close> shows: a group with its named children in the order of \<^verbatim>\<open>keys()\<close>, a dataset
  with its payload, or an object of another kind (a committed datatype). The decoded
  tree is a Python \<^verbatim>\<open>dict\<close>, an association list in insertion order whose keys are
  distinct; \<^const>\<open>AList.update\<close> is the assignment \<^verbatim>\<open>d[k] = v\<close>.
\<close>

datatype dtype = Bool8 | Int16 | Float32 | Float64

datatype ndarray = NumArr dtype "nat list" "pyfloat list" | StrArr "nat list" "string list"

datatype node = Group "(string \<times> node) list" | Dataset ndarray | OtherNode

datatype val = Dict "(string \<times> val) list" | Arr ndarray

type_synonym pydict = "(string \<times> val) list"

section \<open>The name normaliser\<close>

text \<open>
  \<^verbatim>\<open>field_name_from_hdf_name\<close>, lines 136 to 153. The body of the \<^verbatim>\<open>try\<close> statement is
  \<open>field_name_try\<close>; the handler catches ValueError alone, whichever statement of the body
  raised it.
\<close>

definition field_name_try :: "string \<Rightarrow> error + string" where
  "field_name_try hdf_name =
     and_then (py_float hdf_name) (\<lambda>hdf_name_as_double.
     and_then (py_round hdf_name_as_double) (\<lambda>rounded.
       if eq_int hdf_name_as_double rounded then
         format1 ''n'' ''%s'' '''' hdf_name
       else
         and_then (format1 ''Unable to convert group/dataset name '' ''%s''
                           '' to a valid field name.'' hdf_name) (\<lambda>msg.
         Inl (RuntimeError msg))))"

definition field_name_from_hdf_name :: "string \<Rightarrow> error + string" where
  "field_name_from_hdf_name hdf_name =
     (case field_name_try hdf_name of
        Inl ValueError \<Rightarrow> Inr hdf_name
      | Inl e \<Rightarrow> Inl e
      | Inr field_name \<Rightarrow> Inr field_name)"

section \<open>The crawler\<close>

text \<open>
  \<^verbatim>\<open>crawl_h5_group\<close>, lines 117 to 133; \<open>crawl_items\<close> is its loop over the child names,
  with the dictionary \<^verbatim>\<open>result\<close> built so far. The function is called on groups only;
  a node that is no group has no \<^verbatim>\<open>keys()\<close>.
\<close>

fun crawl_h5_group :: "node \<Rightarrow> error + pydict"
  and crawl_items :: "(string \<times> node) list \<Rightarrow> pydict \<Rightarrow> error + pydict" where
  "crawl_h5_group (Group items) = crawl_items items []"
| "crawl_h5_group (Dataset a) = Inl AttributeError"
| "crawl_h5_group OtherNode = Inl AttributeError"
| "crawl_items [] result = Inr result"
| "crawl_items ((item_name, Group items) # rest) result =
     (case field_name_from_hdf_name item_name of
        Inl e \<Rightarrow> Inl e
      | Inr field_name \<Rightarrow>
          (case crawl_h5_group (Group items) of
             Inl e \<Rightarrow> Inl e
           | Inr sub \<Rightarrow> crawl_items rest (AList.update field_name (Dict sub) result)))"
| "crawl_items ((item_name, Dataset a) # rest) result =
     (case field_name_from_hdf_name item_name of
        Inl e \<Rightarrow> Inl e
      | Inr field_name \<Rightarrow> crawl_items rest (AList.update field_name (Arr a) result))"
| "crawl_items ((item_name, OtherNode) # rest) result = crawl_items rest result"


section \<open>NumPy operations\<close>

fun fl_add :: "pyfloat \<Rightarrow> pyfloat \<Rightarrow> pyfloat" where
  "fl_add (Fin a) (Fin b) = Fin (a + b)"
| "fl_add NaN _ = NaN"
| "fl_add _ NaN = NaN"
| "fl_add PInf NInf = NaN"
| "fl_add NInf PInf = NaN"
| "fl_add PInf _ = PInf"
| "fl_add _ PInf = PInf"
| "fl_add NInf _ = NInf"
| "fl_add _ NInf = NInf"

fun fl_sign :: "pyfloat \<Rightarrow> int" where
  "fl_sign (Fin a) = (if a = 0 then 0 else if 0 < a then 1 else - 1)"
| "fl_sign PInf = 1"
| "fl_sign NInf = - 1"
| "fl_sign NaN = 0"

fun fl_mul :: "pyfloat \<Rightarrow> pyfloat \<Rightarrow> pyfloat" where
  \<comment> \<open>with an operand that is not finite: NaN when either is NaN or zero, else the sign rule\<close>
  "fl_mul (Fin a) (Fin b) = Fin (a * b)"
| "fl_mul a b =
     (if fl_sign a * fl_sign b = 0 then NaN
      else if 0 < fl_sign a * fl_sign b then PInf else NInf)"

fun fl_recip :: "pyfloat \<Rightarrow> pyfloat" where
  \<comment> \<open>\<^verbatim>\<open>1.0 / s\<close> on an element of an array: no exception, a zero gives an infinity\<close>
  "fl_recip (Fin s) = (if s = 0 then PInf else Fin (1 / s))"
| "fl_recip PInf = Fin 0"
| "fl_recip NInf = Fin 0"
| "fl_recip NaN = NaN"

fun fl_positive :: "pyfloat \<Rightarrow> bool" where
  \<comment> \<open>\<^verbatim>\<open>x > 0\<close>\<close>
  "fl_positive (Fin a) = (0 < a)"
| "fl_positive PInf = True"
| "fl_positive NInf = False"
| "fl_positive NaN = False"

fun fl_truth :: "pyfloat \<Rightarrow> bool" where
  \<comment> \<open>the cast of one element to \<^verbatim>\<open>bool\<close>\<close>
  "fl_truth (Fin a) = (a \<noteq> 0)"
| "fl_truth _ = True"

fun fl_less :: "pyfloat \<Rightarrow> real \<Rightarrow> bool" where
  \<comment> \<open>\<^verbatim>\<open>x < c\<close> for a finite constant \<open>c\<close>\<close>
  "fl_less (Fin a) c = (a < c)"
| "fl_less NInf c = True"
| "fl_less PInf c = False"
| "fl_less NaN c = False"

definition polyval :: "pyfloat list \<Rightarrow> pyfloat \<Rightarrow> pyfloat" where
  \<comment> \<open>\<^verbatim>\<open>numpy.polyval(p, x)\<close> at one element \<open>x\<close>: \<^verbatim>\<open>y = 0; for pv in p: y = y * x + pv\<close>\<close>
  "polyval p x = foldl (\<lambda>y pv. fl_add (fl_mul y x) pv) (Fin 0) p"

definition arr_shape :: "ndarray \<Rightarrow> nat list" where
  "arr_shape a = (case a of NumArr _ sh _ \<Rightarrow> sh | StrArr sh _ \<Rightarrow> sh)"

definition arr_size :: "ndarray \<Rightarrow> nat" where
  "arr_size a = prod_list (arr_shape a)"

definition well_shaped :: "ndarray \<Rightarrow> bool" where
  \<comment> \<open>the invariant of an array: as many elements as its shape says\<close>
  "well_shaped a = (case a of
       NumArr _ sh es \<Rightarrow> length es = prod_list sh
     | StrArr sh ss \<Rightarrow> length ss = prod_list sh)"

definition is_ascii :: "string \<Rightarrow> bool" where
  "is_ascii s = list_all (\<lambda>c. (of_char c :: nat) < 128) s"

definition item_bytes :: "string \<Rightarrow> string" where
  \<comment> \<open>the value of a byte-string element: its buffer without the padding zeros\<close>
  "item_bytes s = rev (dropWhile (\<lambda>c. (of_char c :: nat) = 0) (rev s))"

definition getitem :: "val \<Rightarrow> string \<Rightarrow> error + val" where
  \<comment> \<open>\<^verbatim>\<open>v[k]\<close> for a string \<open>k\<close>\<close>
  "getitem v k = (case v of
       Dict d \<Rightarrow> (case map_of d k of None \<Rightarrow> Inl (KeyError k) | Some x \<Rightarrow> Inr x)
     | Arr _ \<Rightarrow> Inl IndexError)"

definition contains :: "string \<Rightarrow> val \<Rightarrow> bool" where
  \<comment> \<open>\<^verbatim>\<open>k in v\<close> for a string \<open>k\<close>; no element of an array equals a \<^verbatim>\<open>str\<close>\<close>
  "contains k v = (case v of Dict d \<Rightarrow> map_of d k \<noteq> None | Arr _ \<Rightarrow> False)"

definition setitem :: "val \<Rightarrow> string \<Rightarrow> val \<Rightarrow> error + val" where
  \<comment> \<open>\<^verbatim>\<open>v[k] = x\<close> for a string \<open>k\<close>, returning the updated \<open>v\<close>\<close>
  "setitem v k x = (case v of
       Dict d \<Rightarrow> Inr (Dict (AList.update k x d))
     | Arr _ \<Rightarrow> Inl IndexError)"

definition float_of_val :: "val \<Rightarrow> error + pyfloat" where
  \<comment> \<open>\<^verbatim>\<open>float(v)\<close>: an array of one element converts (NumPy 1.x), any other raises\<close>
  "float_of_val v = (case v of
       Dict _ \<Rightarrow> Inl TypeError
     | Arr (NumArr _ _ es) \<Rightarrow> (case es of [x] \<Rightarrow> Inr x | _ \<Rightarrow> Inl TypeError)
     | Arr (StrArr _ ss) \<Rightarrow>
         (case ss of
            [s] \<Rightarrow> if is_ascii s then py_float (item_bytes s) else Inl ValueError
          | _ \<Rightarrow> Inl TypeError))"

definition tostring :: "val \<Rightarrow> error + string" where
  \<comment> \<open>\<^verbatim>\<open>v.tostring()\<close>: the buffer of the array\<close>
  "tostring v = (case v of
       Dict _ \<Rightarrow> Inl AttributeError
     | Arr (NumArr _ _ _) \<Rightarrow> Inl Unmodelled
     | Arr (StrArr _ ss) \<Rightarrow> Inr (concat ss))"

definition decode_utf8 :: "string \<Rightarrow> error + string" where
  \<comment> \<open>\<^verbatim>\<open>b.decode('utf-8')\<close>\<close>
  "decode_utf8 b = (if is_ascii b then Inr b else Inl Unmodelled)"

definition val_size :: "val \<Rightarrow> error + nat" where
  \<comment> \<open>\<^verbatim>\<open>v.size\<close>\<close>
  "val_size v = (case v of Dict _ \<Rightarrow> Inl AttributeError | Arr a \<Rightarrow> Inr (arr_size a))"

definition astype_bool :: "val \<Rightarrow> error + ndarray" where
  \<comment> \<open>\<^verbatim>\<open>v.astype(bool)\<close>\<close>
  "astype_bool v = (case v of
       Dict _ \<Rightarrow> Inl AttributeError
     | Arr (NumArr _ sh es) \<Rightarrow> Inr (NumArr Bool8 sh (map (\<lambda>x. Fin (if fl_truth x then 1 else 0)) es))
     | Arr (StrArr _ _) \<Rightarrow> Inl Unmodelled)"

definition mask_index :: "val \<Rightarrow> ndarray \<Rightarrow> error + ndarray" where
  \<comment> \<open>\<^verbatim>\<open>v[is_active]\<close> for a boolean array of the shape of \<open>v\<close>: the selected elements, as a vector\<close>
  "mask_index v is_active = (case v of
       Dict _ \<Rightarrow> Inl TypeError
     | Arr a \<Rightarrow>
         (case is_active of
            StrArr _ _ \<Rightarrow> Inl Unmodelled
          | NumArr _ msh ms \<Rightarrow>
              if arr_shape a = msh then
                (case a of
                   NumArr dt _ es \<Rightarrow>
                     (let sel = map fst (filter (\<lambda>(x, m). fl_truth m) (zip es ms))
                      in Inr (NumArr dt [length sel] sel))
                 | StrArr _ ss \<Rightarrow>
                     (let sel = map fst (filter (\<lambda>(x, m). fl_truth m) (zip ss ms))
                      in Inr (StrArr [length sel] sel)))
              else if length msh < length (arr_shape a)
                      \<and> take (length msh) (arr_shape a) = msh then Inl Unmodelled
              else Inl IndexError))"

section \<open>Analog scaling\<close>

text \<open>
  What NumPy leaves to the machine is a parameter of the model: the narrowing of a
  binary64 value to binary32 done by \<^verbatim>\<open>astype('single')\<close>, and the old content of the
  memory that \<^verbatim>\<open>numpy.empty\<close> hands out, by position.
\<close>

record runtime =
  to_single :: "pyfloat \<Rightarrow> pyfloat"
  uninitialised :: "nat \<Rightarrow> pyfloat"

definition numpy_empty :: "runtime \<Rightarrow> nat list \<Rightarrow> pyfloat list" where
  \<comment> \<open>the elements of \<^verbatim>\<open>numpy.empty(sh)\<close>, an array of binary64\<close>
  "numpy_empty rt sh = map (uninitialised rt) [0..<prod_list sh]"

definition reciprocal :: "ndarray \<Rightarrow> error + pyfloat list" where
  \<comment> \<open>\<^verbatim>\<open>1.0 / channel_scales\<close>\<close>
  "reciprocal a = (case a of
       NumArr _ _ es \<Rightarrow> Inr (map fl_recip es)
     | StrArr _ _ \<Rightarrow> Inl TypeError)"

definition vector_item :: "nat list \<Rightarrow> 'a list \<Rightarrow> nat \<Rightarrow> error + 'a" where
  \<comment> \<open>\<^verbatim>\<open>a[i]\<close> where one element is wanted\<close>
  "vector_item sh es i = (case sh of
       [] \<Rightarrow> Inl IndexError
     | [n] \<Rightarrow> if i < n \<and> i < length es then Inr (es ! i) else Inl IndexError
     | _ \<Rightarrow> Inl Unmodelled)"

definition matrix_row :: "nat list \<Rightarrow> 'a list \<Rightarrow> nat \<Rightarrow> error + 'a list" where
  \<comment> \<open>\<^verbatim>\<open>a[i, :]\<close>\<close>
  "matrix_row sh es i = (case sh of
       [] \<Rightarrow> Inl IndexError
     | [n] \<Rightarrow> Inl IndexError
     | [n, m] \<Rightarrow> if i < n then Inr (take m (drop (i * m) es)) else Inl IndexError
     | _ \<Rightarrow> Inl Unmodelled)"

definition val_row :: "val \<Rightarrow> nat \<Rightarrow> error + pyfloat list" where
  \<comment> \<open>\<^verbatim>\<open>v[i, :]\<close> for the numeric arrays of the scaling\<close>
  "val_row v i = (case v of
       Dict _ \<Rightarrow> Inl TypeError
     | Arr (NumArr _ sh es) \<Rightarrow> matrix_row sh es i
     | Arr (StrArr _ _) \<Rightarrow> Inl Unmodelled)"

definition set_row :: "nat list \<Rightarrow> 'a list \<Rightarrow> nat \<Rightarrow> 'a list \<Rightarrow> 'a list" where
  \<comment> \<open>\<^verbatim>\<open>a[i, :] = r\<close> on the elements of a matrix of shape \<open>sh\<close>, for a row in range\<close>
  "set_row sh es i r = take (i * (sh ! 1)) es @ r @ drop ((i + 1) * (sh ! 1)) es"

text \<open>
  \<^verbatim>\<open>scaled_double_analog_data_from_raw\<close>, lines 156 to 177; \<open>scale_channels\<close> is its loop
  over the channels, on the elements of \<^verbatim>\<open>scaled_data\<close>, whose shape \<open>sh\<close> is the shape of
  the counts.
\<close>

fun scale_channels ::
  "pyfloat list \<Rightarrow> nat list \<Rightarrow> val \<Rightarrow> val \<Rightarrow> nat list \<Rightarrow> nat list \<Rightarrow> pyfloat list
     \<Rightarrow> error + pyfloat list" where
  "scale_channels inverse_channel_scales ssh data_as_ADC_counts scaling_coefficients sh [] scaled_data =
     Inr scaled_data"
| "scale_channels inverse_channel_scales ssh data_as_ADC_counts scaling_coefficients sh (i # rest) scaled_data =
     (case vector_item ssh inverse_channel_scales i of
        Inl e \<Rightarrow> Inl e
      | Inr inverse_scale \<Rightarrow>
     (case val_row scaling_coefficients i of
        Inl e \<Rightarrow> Inl e
      | Inr coefficients \<Rightarrow>
     (case val_row data_as_ADC_counts i of
        Inl e \<Rightarrow> Inl e
      | Inr counts \<Rightarrow>
          scale_channels inverse_channel_scales ssh data_as_ADC_counts scaling_coefficients sh rest
            (set_row sh scaled_data i
               (map (\<lambda>x. fl_mul inverse_scale (polyval (rev coefficients) x)) counts)))))"

definition scaled_double_analog_data_from_raw ::
  "runtime \<Rightarrow> val \<Rightarrow> ndarray \<Rightarrow> val \<Rightarrow> error + ndarray" where
  "scaled_double_analog_data_from_raw rt data_as_ADC_counts channel_scales scaling_coefficients =
     and_then (reciprocal channel_scales) (\<lambda>inverse_channel_scales.
     (let n_channels = arr_size channel_scales in
      (case data_as_ADC_counts of
         Dict _ \<Rightarrow> Inl AttributeError
       | Arr a \<Rightarrow>
           (let sh = arr_shape a; scaled_data = numpy_empty rt sh in
            and_then (scale_channels inverse_channel_scales (arr_shape channel_scales)
                        data_as_ADC_counts scaling_coefficients sh [0..<n_channels] scaled_data)
              (\<lambda>scaled_data. Inr (NumArr Float64 sh scaled_data))))))"

definition astype_single :: "runtime \<Rightarrow> ndarray \<Rightarrow> ndarray" where
  \<comment> \<open>\<^verbatim>\<open>a.astype('single')\<close> of a numeric array\<close>
  "astype_single rt a = (case a of
       NumArr _ sh es \<Rightarrow> NumArr Float32 sh (map (to_single rt) es)
     | StrArr sh ss \<Rightarrow> StrArr sh ss)"

text \<open>\<^verbatim>\<open>scaled_single_analog_data_from_raw\<close>, lines 180 to 182.\<close>

definition scaled_single_analog_data_from_raw ::
  "runtime \<Rightarrow> val \<Rightarrow> ndarray \<Rightarrow> val \<Rightarrow> error + ndarray" where
  "scaled_single_analog_data_from_raw rt dataAsADCCounts channelScales scalingCoefficients =
     and_then (scaled_double_analog_data_from_raw rt dataAsADCCounts channelScales scalingCoefficients)
       (\<lambda>scaledData. Inr (astype_single rt scaledData))"


section \<open>The loader\<close>

text \<open>
  The file system is a function from a path to the regular file there, if any; a file is
  an HDF5 container, given by the children of its root group, or something else.
\<close>

datatype disk_file = H5File "(string \<times> node) list" | OtherFile

definition splitext :: "string \<Rightarrow> string \<times> string" where
  \<comment> \<open>\<^verbatim>\<open>os.path.splitext\<close>: the extension starts at the last dot of the last component,
      unless only dots precede it there\<close>
  "splitext p =
     (let name = rev (takeWhile (\<lambda>c. c \<noteq> CHR ''/'') (rev p));
          stem = dropWhile (\<lambda>c. c = CHR ''.'') name
      in if CHR ''.'' \<in> set stem then
           (let ext = rev (takeWhile (\<lambda>c. c \<noteq> CHR ''.'') (rev p))
            in (take (length p - length ext - 1) p, CHR ''.'' # ext))
         else (p, []))"

definition h5py_File :: "disk_file \<Rightarrow> error + node" where
  "h5py_File f = (case f of H5File items \<Rightarrow> Inr (Group items) | OtherFile \<Rightarrow> Inl H5OpenError)"

text \<open>Lines 30 to 35: the version of WaveSurfer that wrote the file.\<close>

definition resolve_version :: "val \<Rightarrow> error + pyfloat" where
  "resolve_version header =
     (if contains ''VersionString'' header then
        and_then (getitem header ''VersionString'') (\<lambda>version_string.
        and_then (tostring version_string) (\<lambda>bytes.
        and_then (decode_utf8 bytes) (\<lambda>text.
        py_float text)))
      else Inr (Fin 0))"

text \<open>
  Lines 36 to 53: the correction of the two sample rates. The header is the object stored
  under \<^verbatim>\<open>"header"\<close>; the model carries the header and the whole tree and updates both.
\<close>

definition fix_acquisition_sample_rate :: "val \<Rightarrow> pydict \<Rightarrow> error + val \<times> pydict" where
  \<comment> \<open>lines 38 to 45\<close>
  "fix_acquisition_sample_rate header data_file_as_dict =
     and_then (getitem header ''Acquisition'') (\<lambda>acq.
     and_then (getitem acq ''SampleRate'') (\<lambda>rate.
     and_then (float_of_val rate) (\<lambda>nominal_acquisition_sample_rate.
     and_then (div_float 100000000 nominal_acquisition_sample_rate)
       (\<lambda>nominal_n_timebase_ticks_per_sample.
     and_then (py_round nominal_n_timebase_ticks_per_sample) (\<lambda>rounded.
       if \<not> eq_int nominal_n_timebase_ticks_per_sample rounded then
         and_then (py_floor nominal_n_timebase_ticks_per_sample) (\<lambda>floored.
         and_then (div_int 100000000 floored) (\<lambda>actual_acquisition_sample_rate.
         and_then (setitem acq ''SampleRate''
                     (Arr (NumArr Float64 [] [actual_acquisition_sample_rate]))) (\<lambda>acq.
         and_then (setitem header ''Acquisition'' acq) (\<lambda>header.
         Inr (header, AList.update ''header'' header data_file_as_dict)))))
       else Inr (header, data_file_as_dict))))))"

definition fix_stimulation_sample_rate :: "val \<Rightarrow> pydict \<Rightarrow> error + val \<times> pydict" where
  \<comment> \<open>lines 47 to 53\<close>
  "fix_stimulation_sample_rate header data_file_as_dict =
     and_then (getitem header ''Stimulation'') (\<lambda>stim.
     and_then (getitem stim ''SampleRate'') (\<lambda>rate.
     and_then (float_of_val rate) (\<lambda>nominal_stimulation_sample_rate.
     and_then (div_float 100000000 nominal_stimulation_sample_rate)
       (\<lambda>nominal_n_timebase_ticks_per_sample.
     and_then (py_round nominal_n_timebase_ticks_per_sample) (\<lambda>rounded.
       if \<not> eq_int nominal_n_timebase_ticks_per_sample rounded then
         and_then (py_round nominal_n_timebase_ticks_per_sample) (\<lambda>rounded.
         and_then (div_int 100000000 rounded) (\<lambda>actual_stimulation_sample_rate.
         and_then (setitem stim ''SampleRate''
                     (Arr (NumArr Float64 [] [actual_stimulation_sample_rate]))) (\<lambda>stim.
         and_then (setitem header ''Stimulation'' stim) (\<lambda>header.
         Inr (header, AList.update ''header'' header data_file_as_dict)))))
       else Inr (header, data_file_as_dict))))))"

definition correct_sample_rates :: "pyfloat \<Rightarrow> val \<Rightarrow> pydict \<Rightarrow> error + val \<times> pydict" where
  "correct_sample_rates version header data_file_as_dict =
     (if fl_less version 0.9125 then
        and_then (fix_acquisition_sample_rate header data_file_as_dict) (\<lambda>(header, data_file_as_dict).
        fix_stimulation_sample_rate header data_file_as_dict)
      else Inr (header, data_file_as_dict))"

text \<open>
  Lines 57 to 66: the number of analog input channels, which is the array stored under
  \<^verbatim>\<open>NAIChannels\<close> or the element count of the channel scales; and the truth value of
  \<^verbatim>\<open>n_a_i_channels > 0\<close> (NumPy 1.x: an empty array is false, an array of several
  elements has no truth value).
\<close>

datatype channel_count = CountArray val | CountInt nat

definition n_a_i_channels_of :: "val \<Rightarrow> error + channel_count" where
  "n_a_i_channels_of header =
     (if contains ''NAIChannels'' header then
        and_then (getitem header ''NAIChannels'') (\<lambda>n. Inr (CountArray n))
      else
        and_then (getitem header ''Acquisition'') (\<lambda>acq.
        and_then (if contains ''AnalogChannelScales'' acq then getitem acq ''AnalogChannelScales''
                  else getitem acq ''ChannelScales'') (\<lambda>all_analog_channel_scales.
        and_then (val_size all_analog_channel_scales) (\<lambda>n. Inr (CountInt n)))))"

definition is_positive :: "channel_count \<Rightarrow> error + bool" where
  "is_positive n = (case n of
       CountInt k \<Rightarrow> Inr (0 < k)
     | CountArray (Dict _) \<Rightarrow> Inl TypeError
     | CountArray (Arr (StrArr _ _)) \<Rightarrow> Inl TypeError
     | CountArray (Arr (NumArr _ _ es)) \<Rightarrow>
         (case es of [] \<Rightarrow> Inr False | [x] \<Rightarrow> Inr (fl_positive x) | _ \<Rightarrow> Inl ValueError))"

text \<open>
  Lines 68 to 95: the three inputs of the scaling. Each \<^verbatim>\<open>try\<close> statement turns a
  KeyError of its body into the KeyError of the loader, and lets any other exception pass.
\<close>

definition on_KeyError :: "string \<Rightarrow> error + 'a \<Rightarrow> error + 'a" where
  "on_KeyError msg r = (case r of Inl (KeyError _) \<Rightarrow> Inl (KeyError msg) | _ \<Rightarrow> r)"

definition read_channel_scales :: "val \<Rightarrow> error + val" where
  \<comment> \<open>lines 68 to 76\<close>
  "read_channel_scales header =
     on_KeyError ''Unable to read channel scale information from file.''
       (if contains ''AIChannelScales'' header then getitem header ''AIChannelScales''
        else and_then (getitem header ''Acquisition'') (\<lambda>acq. getitem acq ''AnalogChannelScales''))"

definition read_is_active :: "val \<Rightarrow> error + ndarray" where
  \<comment> \<open>lines 77 to 85\<close>
  "read_is_active header =
     on_KeyError ''Unable to read active/inactive channel information from file.''
       (if contains ''IsAIChannelActive'' header then
          and_then (getitem header ''IsAIChannelActive'') astype_bool
        else
          and_then (getitem header ''Acquisition'') (\<lambda>acq.
          and_then (getitem acq ''IsAnalogChannelActive'') astype_bool))"

definition read_scaling_coefficients :: "val \<Rightarrow> error + val" where
  \<comment> \<open>lines 89 to 95\<close>
  "read_scaling_coefficients header =
     on_KeyError ''Unable to read channel scaling coefficients from file.''
       (if contains ''AIScalingCoefficients'' header then getitem header ''AIScalingCoefficients''
        else and_then (getitem header ''Acquisition'') (\<lambda>acq. getitem acq ''AnalogScalingCoefficients''))"

text \<open>
  Lines 98 to 112: the loop over the keys of the tree, started on the list of its keys.
  Assigning to a key that is present keeps the keys and their order.
\<close>

definition is_sweep_name :: "string \<Rightarrow> bool" where
  \<comment> \<open>line 100\<close>
  "is_sweep_name field_name =
     (5 \<le> length field_name \<and> (take 5 field_name = ''sweep'' \<or> take 5 field_name = ''trial''))"

definition scale_record :: "runtime \<Rightarrow> bool \<Rightarrow> ndarray \<Rightarrow> val \<Rightarrow> val \<Rightarrow> error + val" where
  \<comment> \<open>lines 103 to 112 on the record of one sweep, returning the updated record\<close>
  "scale_record rt does_user_want_single analog_channel_scales analog_scaling_coefficients sweep =
     and_then (getitem sweep ''analogScans'') (\<lambda>analog_data_as_counts.
     and_then (if does_user_want_single then
                 scaled_single_analog_data_from_raw rt analog_data_as_counts
                   analog_channel_scales analog_scaling_coefficients
               else
                 scaled_double_analog_data_from_raw rt analog_data_as_counts
                   analog_channel_scales analog_scaling_coefficients) (\<lambda>scaled_analog_data.
     setitem sweep ''analogScans'' (Arr scaled_analog_data)))"

definition scale_sweep ::
  "runtime \<Rightarrow> bool \<Rightarrow> ndarray \<Rightarrow> val \<Rightarrow> string \<Rightarrow> pydict \<Rightarrow> error + pydict" where
  \<comment> \<open>lines 103 to 112, for the sweep stored under \<open>field_name\<close>\<close>
  "scale_sweep rt does_user_want_single analog_channel_scales analog_scaling_coefficients
       field_name data_file_as_dict =
     and_then (getitem (Dict data_file_as_dict) field_name) (\<lambda>sweep.
     and_then (scale_record rt does_user_want_single analog_channel_scales
                 analog_scaling_coefficients sweep) (\<lambda>sweep.
     Inr (AList.update field_name sweep data_file_as_dict)))"

fun scale_sweeps ::
  "runtime \<Rightarrow> bool \<Rightarrow> ndarray \<Rightarrow> val \<Rightarrow> string list \<Rightarrow> pydict \<Rightarrow> error + pydict" where
  "scale_sweeps rt does_user_want_single analog_channel_scales analog_scaling_coefficients
       [] data_file_as_dict = Inr data_file_as_dict"
| "scale_sweeps rt does_user_want_single analog_channel_scales analog_scaling_coefficients
       (field_name # rest) data_file_as_dict =
     (if is_sweep_name field_name then
        (case scale_sweep rt does_user_want_single analog_channel_scales
                analog_scaling_coefficients field_name data_file_as_dict of
           Inl e \<Rightarrow> Inl e
         | Inr data_file_as_dict \<Rightarrow>
             scale_sweeps rt does_user_want_single analog_channel_scales
               analog_scaling_coefficients rest data_file_as_dict)
      else scale_sweeps rt does_user_want_single analog_channel_scales
             analog_scaling_coefficients rest data_file_as_dict)"

definition scale_analog :: "runtime \<Rightarrow> string \<Rightarrow> val \<Rightarrow> pydict \<Rightarrow> error + pydict" where
  \<comment> \<open>lines 68 to 112: the body of the \<^verbatim>\<open>if\<close> statement of line 67\<close>
  "scale_analog rt format_string header data_file_as_dict =
     and_then (read_channel_scales header) (\<lambda>all_analog_channel_scales.
     and_then (read_is_active header) (\<lambda>is_active.
     and_then (mask_index all_analog_channel_scales is_active) (\<lambda>analog_channel_scales.
     and_then (read_scaling_coefficients header) (\<lambda>analog_scaling_coefficients.
     (let does_user_want_single = (lower format_string = ''single'') in
      scale_sweeps rt does_user_want_single analog_channel_scales analog_scaling_coefficients
        (map fst data_file_as_dict) data_file_as_dict)))))"

definition scaling_wanted :: "string \<Rightarrow> channel_count \<Rightarrow> error + bool" where
  \<comment> \<open>the condition of line 67; \<^verbatim>\<open>and\<close> does not evaluate its right operand after a false left one\<close>
  "scaling_wanted format_string n_a_i_channels =
     (if lower format_string \<noteq> ''raw'' then is_positive n_a_i_channels else Inr False)"

text \<open>
  \<^verbatim>\<open>loadDataFile\<close>, lines 7 to 114, in two parts: \<open>read_and_correct\<close> is lines 15 to 66
  and gives the header, the tree and the number of channels; the rest is lines 67 to 114.
\<close>

definition read_and_correct ::
  "(string \<Rightarrow> disk_file option) \<Rightarrow> string \<Rightarrow> error + val \<times> pydict \<times> channel_count" where
  "read_and_correct fs filename =
     (case fs filename of
        None \<Rightarrow> Inl (IOError (''The file '' @ filename @ '' does not exist.''))
      | Some f \<Rightarrow>
          if snd (splitext filename) \<noteq> ''.h5'' then
            Inl (RuntimeError ''File must be a WaveSurfer-generated HDF5 (.h5) file.'')
          else
            and_then (h5py_File f) (\<lambda>h5file.
            and_then (crawl_h5_group h5file) (\<lambda>data_file_as_dict.
            and_then (getitem (Dict data_file_as_dict) ''header'') (\<lambda>header.
            and_then (resolve_version header) (\<lambda>version.
            and_then (correct_sample_rates version header data_file_as_dict)
              (\<lambda>(header, data_file_as_dict).
            and_then (n_a_i_channels_of header) (\<lambda>n_a_i_channels.
            Inr (header, data_file_as_dict, n_a_i_channels))))))))"

definition loadDataFile ::
  "runtime \<Rightarrow> (string \<Rightarrow> disk_file option) \<Rightarrow> string \<Rightarrow> string \<Rightarrow> error + pydict" where
  "loadDataFile rt fs filename format_string =
     and_then (read_and_correct fs filename) (\<lambda>(header, data_file_as_dict, n_a_i_channels).
     and_then (scaling_wanted format_string n_a_i_channels) (\<lambda>wanted.
       if wanted then scale_analog rt format_string header data_file_as_dict
       else Inr data_file_as_dict))"

section \<open>The narrowed tree\<close>

text \<open>
  The tree "narrowed to single precision", in the words of the specification: in every
  top-level record whose key has the form of a sweep or a trial, the array stored under
  \<^verbatim>\<open>analogScans\<close> is cast by \<^verbatim>\<open>astype('single')\<close>; everything else is kept.
\<close>

definition narrow_record :: "runtime \<Rightarrow> val \<Rightarrow> val" where
  "narrow_record rt v = (case v of
       Dict r \<Rightarrow>
         (case map_of r ''analogScans'' of
            Some (Arr a) \<Rightarrow> Dict (AList.update ''analogScans'' (Arr (astype_single rt a)) r)
          | _ \<Rightarrow> v)
     | Arr _ \<Rightarrow> v)"

definition narrow_where :: "runtime \<Rightarrow> (string \<Rightarrow> bool) \<Rightarrow> pydict \<Rightarrow> pydict" where
  "narrow_where rt P t = map (\<lambda>(k, v). (k, if P k then narrow_record rt v else v)) t"

definition narrowed :: "runtime \<Rightarrow> pydict \<Rightarrow> pydict" where
  "narrowed rt t = narrow_where rt is_sweep_name t"

section \<open>The decoded child\<close>


section \<open>Example inputs\<close>

definition example_runtime :: runtime where
  "example_runtime = \<lparr> to_single = (\<lambda>x. x), uninitialised = (\<lambda>_. NaN) \<rparr>"

text \<open>
  A file without \<^verbatim>\<open>VersionString\<close> whose two nominal sample rates are 40 MHz, that is
  2.5 ticks of the 100 MHz timebase per sample, and which declares no analog channel.
\<close>

definition half_tick_file :: "(string \<times> node) list" where
  "half_tick_file =
     [(''header'', Group
        [(''Acquisition'', Group [(''SampleRate'', Dataset (NumArr Float64 [1, 1] [Fin 40000000]))]),
         (''Stimulation'', Group [(''SampleRate'', Dataset (NumArr Float64 [1, 1] [Fin 40000000]))]),
         (''NAIChannels'', Dataset (NumArr Float64 [1, 1] [Fin 0]))])]"

definition half_tick_header :: val where
  \<comment> \<open>the header decoded from that file\<close>
  "half_tick_header = Dict
     [(''Acquisition'', Dict [(''SampleRate'', Arr (NumArr Float64 [1, 1] [Fin 40000000]))]),
      (''Stimulation'', Dict [(''SampleRate'', Arr (NumArr Float64 [1, 1] [Fin 40000000]))]),
      (''NAIChannels'', Arr (NumArr Float64 [1, 1] [Fin 0]))]"

definition half_tick_fs :: "string \<Rightarrow> disk_file option" where
  "half_tick_fs p = (if p = ''data.h5'' then Some (H5File half_tick_file) else None)"

text \<open>
  A file with one active analog channel of scale 2 and coefficients \<open>[0, 1]\<close>, and one
  sweep of two scans; its rates of 20 kHz are 5000 ticks per sample.
\<close>

definition one_sweep_file :: "(string \<times> node) list" where
  "one_sweep_file =
     [(''header'', Group
        [(''Acquisition'', Group [(''SampleRate'', Dataset (NumArr Float64 [1, 1] [Fin 20000]))]),
         (''Stimulation'', Group [(''SampleRate'', Dataset (NumArr Float64 [1, 1] [Fin 20000]))]),
         (''NAIChannels'', Dataset (NumArr Float64 [1, 1] [Fin 1])),
         (''AIChannelScales'', Dataset (NumArr Float64 [1, 1] [Fin 2])),
         (''IsAIChannelActive'', Dataset (NumArr Float64 [1, 1] [Fin 1])),
         (''AIScalingCoefficients'', Dataset (NumArr Float64 [1, 2] [Fin 0, Fin 1]))]),
      (''sweep_0001'', Group
        [(''analogScans'', Dataset (NumArr Int16 [1, 2] [Fin 10, Fin 20]))])]"

definition one_sweep_fs :: "string \<Rightarrow> disk_file option" where
  "one_sweep_fs p = (if p = ''data.h5'' then Some (H5File one_sweep_file) else None)"

definition one_sweep_loaded :: "ndarray \<Rightarrow> pydict" where
  \<comment> \<open>the tree decoded from that file, with the given array as the scans of the sweep\<close>
  "one_sweep_loaded scans =
     [(''header'', Dict
        [(''Acquisition'', Dict [(''SampleRate'', Arr (NumArr Float64 [1, 1] [Fin 20000]))]),
         (''Stimulation'', Dict [(''SampleRate'', Arr (NumArr Float64 [1, 1] [Fin 20000]))]),
         (''NAIChannels'', Arr (NumArr Float64 [1, 1] [Fin 1])),
         (''AIChannelScales'', Arr (NumArr Float64 [1, 1] [Fin 2])),
         (''IsAIChannelActive'', Arr (NumArr Float64 [1, 1] [Fin 1])),
         (''AIScalingCoefficients'', Arr (NumArr Float64 [1, 2] [Fin 0, Fin 1]))]),
      (''sweep_0001'', Dict [(''analogScans'', Arr scans)])]"

text \<open>The same file without any field of channel scales, in either layout.\<close>

definition no_scales_file :: "(string \<times> node) list" where
  "no_scales_file =
     [(''header'', Group
        [(''Acquisition'', Group [(''SampleRate'', Dataset (NumArr Float64 [1, 1] [Fin 20000]))]),
         (''Stimulation'', Group [(''SampleRate'', Dataset (NumArr Float64 [1, 1] [Fin 20000]))]),
         (''NAIChannels'', Dataset (NumArr Float64 [1, 1] [Fin 1])),
         (''IsAIChannelActive'', Dataset (NumArr Float64 [1, 1] [Fin 1])),
         (''AIScalingCoefficients'', Dataset (NumArr Float64 [1, 2] [Fin 0, Fin 1]))]),
      (''sweep_0001'', Group
        [(''analogScans'', Dataset (NumArr Int16 [1, 2] [Fin 10, Fin 20]))])]"

definition no_scales_fs :: "string \<Rightarrow> disk_file option" where
  "no_scales_fs p = (if p = ''data.h5'' then Some (H5File no_scales_file) else None)"

definition no_scales_header :: pydict where
  \<comment> \<open>the header decoded from that file\<close>
  "no_scales_header =
     [(''Acquisition'', Dict [(''SampleRate'', Arr (NumArr Float64 [1, 1] [Fin 20000]))]),
      (''Stimulation'', Dict [(''SampleRate'', Arr (NumArr Float64 [1, 1] [Fin 20000]))]),
      (''NAIChannels'', Arr (NumArr Float64 [1, 1] [Fin 1])),
      (''IsAIChannelActive'', Arr (NumArr Float64 [1, 1] [Fin 1])),
      (''AIScalingCoefficients'', Arr (NumArr Float64 [1, 2] [Fin 0, Fin 1]))]"

definition no_scales_loaded :: pydict where
  \<comment> \<open>the tree decoded from that file\<close>
  "no_scales_loaded =
     [(''header'', Dict no_scales_header),
      (''sweep_0001'', Dict [(''analogScans'', Arr (NumArr Int16 [1, 2] [Fin 10, Fin 20]))])]"


section \<open>Basic facts\<close>

lemma and_then_Inl [simp]: "and_then (Inl e) f = Inl e"
  by (simp add: and_then_def)

lemma and_then_Inr [simp]: "and_then (Inr x) f = f x"
  by (simp add: and_then_def)

lemma and_then_eq_Inr: "and_then m f = Inr y \<longleftrightarrow> (\<exists>x. m = Inr x \<and> f x = Inr y)"
  by (cases m) simp_all

section \<open>The name normaliser returns every name as it is\<close>

text \<open>
  The format specification \<^verbatim>\<open>%s\<close> of the two templates of lines 144 and 147 is two
  characters that are neither alignment, sign, flag, width nor precision, so more than
  the one character of a type remains: \<^verbatim>\<open>str.format\<close> raises ValueError, inside the
  \<^verbatim>\<open>try\<close> statement.
\<close>

lemma parse_percent_s: "parse_format_spec ''%s'' = Inl ValueError"
  by code_simp

lemma format1_percent_s: "format1 pre ''%s'' post s = Inl ValueError"
  by (simp add: format1_def format_str_def parse_percent_s)






lemmas float_parser_defs =
  py_float_def split_sign_def strip_def is_space_def lower_def lower_char_def
  parse_number_def digitpart_def is_digit_def parse_exponent_def nat_of_digits_def
  digit_val_def float_of_real_def

lemma py_float_3: "py_float ''3'' = Inr (Fin 3)"
  by (simp add: float_parser_defs)

lemma py_float_007: "py_float ''007'' = Inr (Fin 7)"
  by (simp add: float_parser_defs)

lemma py_float_3_5: "py_float ''3.5'' = Inr (Fin (7 / 2))"
  by (simp add: float_parser_defs)

lemma py_float_ch1: "py_float ''ch1'' = Inl ValueError"
  by (simp add: float_parser_defs)

text \<open>
  Claim C3. An integer-valued name is to come back with \<^verbatim>\<open>n\<close> in front: \<^verbatim>\<open>n3\<close> for
  \<^verbatim>\<open>3\<close> and \<^verbatim>\<open>n007\<close> for \<^verbatim>\<open>007\<close>. The program returns both names without the prefix:
  the ValueError of the template of line 144 reaches the handler of line 148.
\<close>

theorem integer_name_gets_no_prefix:
  "field_name_from_hdf_name ''3'' = Inr ''3'' \<and> field_name_from_hdf_name ''007'' = Inr ''007''"
  by (simp add: field_name_from_hdf_name_def field_name_try_def py_float_3 py_float_007
        py_round_def eq_int_def format1_percent_s)

text \<open>
  Claim C4. A name that parses as a number that is no integer, such as \<^verbatim>\<open>3.5\<close>, is to
  be refused with an error. The program returns it as it is: building the message of the
  RuntimeError of line 147 raises ValueError first, which the handler of line 148 takes
  for a name that is no number. A name that does not parse, such as \<^verbatim>\<open>ch1\<close>, is
  returned as it is, as the claim says.
\<close>

theorem fractional_name_is_accepted:
  "field_name_from_hdf_name ''3.5'' = Inr ''3.5'' \<and> field_name_from_hdf_name ''ch1'' = Inr ''ch1''"
  by (simp add: field_name_from_hdf_name_def field_name_try_def py_float_3_5 py_float_ch1
        py_round_def eq_int_def format1_percent_s)


section \<open>The sample rates\<close>

text \<open>
  Claim C1. At 2.5 ticks per sample the stimulation rate is to become 100 MHz / 3, the
  ticks rounded half away from zero, and to differ from the acquisition rate of 50 MHz.
  The \<^verbatim>\<open>round\<close> of Python 3 rounds a tie to the even integer: \<^verbatim>\<open>round(2.5)\<close> is 2, as
  \<^verbatim>\<open>math.floor(2.5)\<close> is, and the program stores 50 MHz for both rates. The comment of
  line 41 asks for a rounding that is not the one of NumPy, which rounds a tie to the
  even integer too. Every number on the way (2.5, 2, 50000000) is exact in binary64.
\<close>

theorem half_tick_rates_coincide:
  "loadDataFile example_runtime half_tick_fs ''data.h5'' ''double'' =
     Inr [(''header'', Dict
        [(''Acquisition'', Dict [(''SampleRate'', Arr (NumArr Float64 [] [Fin 50000000]))]),
         (''Stimulation'', Dict [(''SampleRate'', Arr (NumArr Float64 [] [Fin 50000000]))]),
         (''NAIChannels'', Arr (NumArr Float64 [1, 1] [Fin 0]))])]"
  by code_simp

text \<open>
  Claim C8. From version 0.9125 on, the correction of the sample rates does nothing and
  raises nothing: the header and the whole tree come back as they were.
\<close>

theorem no_correction_from_0_9125:
  "0.9125 \<le> v \<Longrightarrow>
   correct_sample_rates (Fin v) header data_file_as_dict = Inr (header, data_file_as_dict)"
  by (simp add: correct_sample_rates_def)

theorem no_correction_from_0_9125_witness:
  "(0.9125 :: real) \<le> 0.913 \<and>
   correct_sample_rates (Fin 0.913) half_tick_header [(''header'', half_tick_header)] =
     Inr (half_tick_header, [(''header'', half_tick_header)])"
  using no_correction_from_0_9125 [of "0.913" half_tick_header "[(''header'', half_tick_header)]"]
  by simp

section \<open>The shape of the scaled data\<close>

lemma scaled_double_shape:
  "scaled_double_analog_data_from_raw rt (Arr a) channel_scales scaling_coefficients = Inr y \<Longrightarrow>
     arr_shape y = arr_shape a"
  by (auto simp: scaled_double_analog_data_from_raw_def and_then_eq_Inr Let_def arr_shape_def)

text \<open>
  Claim C2. The scaled matrix is to have the transposed shape, scans by channels. The
  program allocates the result with the shape of the counts and fills it row by row, so
  the result always has the shape of the counts (\<open>scaled_double_shape\<close>): one channel
  of two scans, of shape \<open>[1, 2]\<close>, is scaled to a matrix of shape \<open>[1, 2]\<close>, in the
  function and in the loaded tree. The comment of lines 168 and 169 announces scans by
  channels.
\<close>

theorem scaled_data_is_not_transposed:
  "scaled_double_analog_data_from_raw example_runtime
     (Arr (NumArr Int16 [1, 2] [Fin 10, Fin 20])) (NumArr Float64 [1] [Fin 2])
     (Arr (NumArr Float64 [1, 2] [Fin 0, Fin 1])) = Inr (NumArr Float64 [1, 2] [Fin 5, Fin 10])
   \<and> loadDataFile example_runtime one_sweep_fs ''data.h5'' ''double'' =
       Inr (one_sweep_loaded (NumArr Float64 [1, 2] [Fin 5, Fin 10]))"
  by code_simp

section \<open>The format selector\<close>

lemma lower_char_idem: "lower_char (lower_char c) = lower_char c"
  by (auto simp: lower_char_def Let_def)

lemma lower_idem: "lower (lower s) = lower s"
  by (simp add: lower_def lower_char_idem)

lemma lower_double: "lower ''double'' = ''double''"
  by (simp add: lower_def lower_char_def)

lemma scale_analog_lower: "scale_analog rt (lower s) header d = scale_analog rt s header d"
  by (simp add: scale_analog_def lower_idem)

lemma scaling_wanted_lower: "scaling_wanted (lower s) n = scaling_wanted s n"
  by (simp add: scaling_wanted_def lower_idem)

lemma loadDataFile_lower: "loadDataFile rt fs p (lower s) = loadDataFile rt fs p s"
  by (simp add: loadDataFile_def scale_analog_lower scaling_wanted_lower cong: if_cong)

lemma scale_analog_double:
  "lower s \<noteq> ''single'' \<Longrightarrow> scale_analog rt s header d = scale_analog rt ''double'' header d"
  by (simp add: scale_analog_def lower_double)

lemma scaling_wanted_double:
  "lower s \<noteq> ''raw'' \<Longrightarrow> scaling_wanted s n = scaling_wanted ''double'' n"
  by (simp add: scaling_wanted_def lower_double)

text \<open>
  Claim C10. The selector is read through \<^verbatim>\<open>lower()\<close> only, so a selector and its
  lowercase form load the same result, error or tree; and a selector whose lowercase form
  is neither \<^verbatim>\<open>raw\<close> nor \<^verbatim>\<open>single\<close> loads what \<^verbatim>\<open>double\<close> loads, so no selector is
  refused.
\<close>

theorem selector_is_case_insensitive:
  "loadDataFile rt fs p s = loadDataFile rt fs p (lower s) \<and>
   (lower s \<noteq> ''raw'' \<and> lower s \<noteq> ''single'' \<longrightarrow>
      loadDataFile rt fs p s = loadDataFile rt fs p ''double'')"
proof (intro conjI impI)
  show "loadDataFile rt fs p s = loadDataFile rt fs p (lower s)"
    by (simp add: loadDataFile_lower)
next
  assume "lower s \<noteq> ''raw'' \<and> lower s \<noteq> ''single''"
  then show "loadDataFile rt fs p s = loadDataFile rt fs p ''double''"
    by (simp add: loadDataFile_def scale_analog_double [of s] scaling_wanted_double [of s]
          cong: if_cong)
qed

theorem selector_is_case_insensitive_witness:
  "lower ''Float'' \<noteq> ''raw'' \<and> lower ''Float'' \<noteq> ''single'' \<and>
   loadDataFile example_runtime one_sweep_fs ''data.h5'' ''Float'' =
     loadDataFile example_runtime one_sweep_fs ''data.h5'' (lower ''Float'') \<and>
   loadDataFile example_runtime one_sweep_fs ''data.h5'' ''Float'' =
     loadDataFile example_runtime one_sweep_fs ''data.h5'' ''double''"
proof -
  have l: "lower ''Float'' = ''float''"
    by code_simp
  have "lower ''Float'' \<noteq> ''raw'' \<and> lower ''Float'' \<noteq> ''single''"
    by (simp add: l)
  with selector_is_case_insensitive [of example_runtime one_sweep_fs "''data.h5''" "''Float''"]
  show ?thesis
    by blast
qed


section \<open>The crawler\<close>






section \<open>Missing channel scales\<close>

lemma getitem_Dict_Inr: "getitem (Dict d) k = Inr v \<longleftrightarrow> map_of d k = Some v"
  by (simp add: getitem_def split: option.splits)

lemma fix_acquisition_header:
  assumes "fix_acquisition_sample_rate h d = Inr (h', d')" and "map_of d ''header'' = Some h"
  shows "map_of d' ''header'' = Some h'"
  using assms
  by (auto simp: fix_acquisition_sample_rate_def and_then_eq_Inr update_conv' split: if_splits)

lemma fix_stimulation_header:
  assumes "fix_stimulation_sample_rate h d = Inr (h', d')" and "map_of d ''header'' = Some h"
  shows "map_of d' ''header'' = Some h'"
  using assms
  by (auto simp: fix_stimulation_sample_rate_def and_then_eq_Inr update_conv' split: if_splits)

lemma correct_sample_rates_header:
  assumes "correct_sample_rates version h d = Inr (h', d')" and "map_of d ''header'' = Some h"
  shows "map_of d' ''header'' = Some h'"
  using assms
  by (auto simp: correct_sample_rates_def and_then_eq_Inr split: if_splits
        dest: fix_acquisition_header fix_stimulation_header)

lemma read_and_correct_header:
  assumes "read_and_correct fs p = Inr (header, d, n)"
  shows "map_of d ''header'' = Some header \<and> n_a_i_channels_of header = Inr n"
  using assms
  by (auto simp: read_and_correct_def and_then_eq_Inr getitem_Dict_Inr
        split: option.splits if_splits dest: correct_sample_rates_header)

lemma lower_raw: "lower ''raw'' = ''raw''"
  by (simp add: lower_def lower_char_def)

lemma load_raw_Inr:
  "loadDataFile rt fs p ''raw'' = Inr t \<longleftrightarrow> (\<exists>header n. read_and_correct fs p = Inr (header, t, n))"
  by (auto simp: loadDataFile_def and_then_eq_Inr scaling_wanted_def lower_raw)

lemma read_channel_scales_missing:
  assumes "map_of h ''AIChannelScales'' = None"
    and "\<forall>acq. map_of h ''Acquisition'' = Some acq \<longrightarrow>
           (\<exists>a. acq = Dict a \<and> map_of a ''AnalogChannelScales'' = None)"
  shows "read_channel_scales (Dict h) =
           Inl (KeyError ''Unable to read channel scale information from file.'')"
proof (cases "map_of h ''Acquisition''")
  case None
  with assms(1) show ?thesis
    by (simp add: read_channel_scales_def contains_def getitem_def on_KeyError_def)
next
  case (Some acq)
  with assms(2) obtain a where "acq = Dict a" "map_of a ''AnalogChannelScales'' = None"
    by blast
  with assms(1) Some show ?thesis
    by (simp add: read_channel_scales_def contains_def getitem_def on_KeyError_def)
qed

text \<open>
  Claim C7. Take a file that loads in the format \<^verbatim>\<open>raw\<close>, so that everything before the
  scaling succeeds, and let \<open>h\<close> be the header of the loaded tree. If the selector is not
  \<^verbatim>\<open>raw\<close>, the number of analog channels of \<open>h\<close> is positive, and \<open>h\<close> has neither
  \<^verbatim>\<open>AIChannelScales\<close> nor, in a group \<^verbatim>\<open>Acquisition\<close>, \<^verbatim>\<open>AnalogChannelScales\<close>, then the
  load fails with the KeyError whose message names the channel scale information.
\<close>

theorem missing_channel_scales:
  assumes "loadDataFile rt fs p ''raw'' = Inr t"
    and "map_of t ''header'' = Some (Dict h)"
    and "n_a_i_channels_of (Dict h) = Inr n"
    and "lower fmt \<noteq> ''raw''"
    and "is_positive n = Inr True"
    and "map_of h ''AIChannelScales'' = None"
    and "\<forall>acq. map_of h ''Acquisition'' = Some acq \<longrightarrow>
           (\<exists>a. acq = Dict a \<and> map_of a ''AnalogChannelScales'' = None)"
  shows "loadDataFile rt fs p fmt =
           Inl (KeyError ''Unable to read channel scale information from file.'')"
proof -
  from assms(1) obtain header n' where rc: "read_and_correct fs p = Inr (header, t, n')"
    by (auto simp: load_raw_Inr)
  from read_and_correct_header [OF rc] assms(2,3) have hn: "header = Dict h" "n' = n"
    by auto
  have "scale_analog rt fmt (Dict h) t =
          Inl (KeyError ''Unable to read channel scale information from file.'')"
    by (simp add: scale_analog_def read_channel_scales_missing [OF assms(6,7)])
  with rc hn assms(4,5) show ?thesis
    by (simp add: loadDataFile_def scaling_wanted_def)
qed

theorem missing_channel_scales_witness:
  "loadDataFile example_runtime no_scales_fs ''data.h5'' ''raw'' = Inr no_scales_loaded
   \<and> map_of no_scales_loaded ''header'' = Some (Dict no_scales_header)
   \<and> n_a_i_channels_of (Dict no_scales_header) =
        Inr (CountArray (Arr (NumArr Float64 [1, 1] [Fin 1])))
   \<and> lower ''double'' \<noteq> ''raw''
   \<and> is_positive (CountArray (Arr (NumArr Float64 [1, 1] [Fin 1]))) = Inr True
   \<and> map_of no_scales_header ''AIChannelScales'' = None
   \<and> map_of no_scales_header ''Acquisition'' =
        Some (Dict [(''SampleRate'', Arr (NumArr Float64 [1, 1] [Fin 20000]))])
   \<and> loadDataFile example_runtime no_scales_fs ''data.h5'' ''double'' =
        Inl (KeyError ''Unable to read channel scale information from file.'')"
proof -
  have raw: "loadDataFile example_runtime no_scales_fs ''data.h5'' ''raw'' = Inr no_scales_loaded"
    by code_simp
  have hdr: "map_of no_scales_loaded ''header'' = Some (Dict no_scales_header)"
    by (simp add: no_scales_loaded_def)
  have cnt: "n_a_i_channels_of (Dict no_scales_header) =
        Inr (CountArray (Arr (NumArr Float64 [1, 1] [Fin 1])))"
    by (simp add: n_a_i_channels_of_def contains_def getitem_def no_scales_header_def)
  have fmt: "lower ''double'' \<noteq> ''raw''"
    by (simp add: lower_double)
  have pos: "is_positive (CountArray (Arr (NumArr Float64 [1, 1] [Fin 1]))) = Inr True"
    by (simp add: is_positive_def)
  have new: "map_of no_scales_header ''AIChannelScales'' = None"
    by (simp add: no_scales_header_def)
  have acq: "map_of no_scales_header ''Acquisition'' =
        Some (Dict [(''SampleRate'', Arr (NumArr Float64 [1, 1] [Fin 20000]))])"
    by (simp add: no_scales_header_def)
  have old: "\<forall>acq. map_of no_scales_header ''Acquisition'' = Some acq \<longrightarrow>
           (\<exists>a. acq = Dict a \<and> map_of a ''AnalogChannelScales'' = None)"
    by (simp add: acq)
  from missing_channel_scales [OF raw hdr cnt fmt pos new old] raw hdr cnt fmt pos new acq
  show ?thesis
    by blast
qed


section \<open>The scaled samples\<close>














section \<open>The formats raw and single\<close>

lemma scale_record_single:
  "scale_record rt True sc co v = map_sum id (narrow_record rt) (scale_record rt False sc co v)"
proof (cases v)
  case (Arr a)
  then show ?thesis
    by (simp add: scale_record_def getitem_def)
next
  case (Dict r)
  show ?thesis
  proof (cases "map_of r ''analogScans''")
    case None
    with Dict show ?thesis
      by (simp add: scale_record_def getitem_def)
  next
    case (Some counts)
    show ?thesis
    proof (cases "scaled_double_analog_data_from_raw rt counts sc co")
      case (Inl e)
      with Dict Some show ?thesis
        by (simp add: scale_record_def getitem_def scaled_single_analog_data_from_raw_def)
    next
      case (Inr y)
      with Dict Some show ?thesis
        by (simp add: scale_record_def getitem_def scaled_single_analog_data_from_raw_def
              setitem_def narrow_record_def update_conv')
    qed
  qed
qed

lemma map_of_narrow_where:
  "map_of (narrow_where rt P d) k =
     (if P k then map_option (narrow_record rt) (map_of d k) else map_of d k)"
  by (induction d) (auto simp: narrow_where_def)

lemma keys_narrow_where: "map fst (narrow_where rt P d) = map fst d"
  by (simp add: narrow_where_def case_prod_unfold)

lemma narrow_where_cong:
  "(\<And>x. x \<in> fst ` set d \<Longrightarrow> P x = Q x) \<Longrightarrow> narrow_where rt P d = narrow_where rt Q d"
  unfolding narrow_where_def by (rule map_cong [OF refl]) force

lemma narrow_where_update:
  "distinct (map fst d) \<Longrightarrow> \<not> P k \<Longrightarrow>
     narrow_where rt (\<lambda>x. x = k \<or> P x) (AList.update k v d) =
       AList.update k (narrow_record rt v) (narrow_where rt P d)"
proof (induction d)
  case Nil
  then show ?case by (simp add: narrow_where_def)
next
  case (Cons e d)
  obtain k' v' where e: "e = (k', v')"
    by (cases e)
  show ?case
  proof (cases "k' = k")
    case True
    with Cons.prems e have "k \<notin> fst ` set d"
      by auto
    then have "narrow_where rt (\<lambda>x. x = k \<or> P x) d = narrow_where rt P d"
      by (intro narrow_where_cong) auto
    with True e show ?thesis
      by (simp add: narrow_where_def)
  next
    case False
    with Cons e show ?thesis
      by (simp add: narrow_where_def)
  qed
qed

lemma scale_sweeps_single:
  "distinct ks \<Longrightarrow> distinct (map fst d) \<Longrightarrow>
     scale_sweeps rt True sc co ks (narrow_where rt (\<lambda>k. is_sweep_name k \<and> k \<notin> set ks) d) =
       map_sum id (narrowed rt) (scale_sweeps rt False sc co ks d)"
proof (induction ks arbitrary: d)
  case Nil
  then show ?case
    by (simp add: narrowed_def)
next
  case (Cons k ks)
  let ?P = "\<lambda>x. is_sweep_name x \<and> x \<notin> set (k # ks)"
  let ?Q = "\<lambda>x. is_sweep_name x \<and> x \<notin> set ks"
  have ks: "distinct ks" and k: "k \<notin> set ks"
    using Cons.prems(1) by simp_all
  show ?case
  proof (cases "is_sweep_name k")
    case False
    then have "?P = ?Q"
      by auto
    with False Cons.IH [OF ks Cons.prems(2)] show ?thesis
      by simp
  next
    case True
    have entry: "map_of (narrow_where rt ?P d) k = map_of d k"
      by (simp add: map_of_narrow_where)
    show ?thesis
    proof (cases "map_of d k")
      case None
      with True entry show ?thesis
        by (simp add: scale_sweep_def getitem_def)
    next
      case (Some v)
      show ?thesis
      proof (cases "scale_record rt False sc co v")
        case (Inl e)
        with True entry Some show ?thesis
          by (simp add: scale_sweep_def getitem_def scale_record_single)
      next
        case (Inr v')
        have Q: "?Q = (\<lambda>x. x = k \<or> ?P x)"
          using True k by auto
        have "narrow_where rt ?Q (AList.update k v' d) =
                AList.update k (narrow_record rt v') (narrow_where rt ?P d)"
          unfolding Q using Cons.prems(2) by (intro narrow_where_update) simp_all
        moreover have "distinct (map fst (AList.update k v' d))"
          using Cons.prems(2) by (rule distinct_update)
        ultimately show ?thesis
          using True entry Some Inr Cons.IH [OF ks, of "AList.update k v' d"]
          by (simp add: scale_sweep_def getitem_def scale_record_single)
      qed
    qed
  qed
qed

lemma narrow_where_none: "(\<And>k. k \<in> fst ` set d \<Longrightarrow> \<not> P k) \<Longrightarrow> narrow_where rt P d = d"
  by (induction d) (auto simp: narrow_where_def)

lemma scale_analog_single:
  assumes "distinct (map fst d)"
  shows "scale_analog rt ''single'' h d = map_sum id (narrowed rt) (scale_analog rt ''double'' h d)"
proof -
  have s: "lower ''single'' = ''single''" and dd: "lower ''double'' = ''double''"
    by (simp_all add: lower_def lower_char_def)
  have n: "narrow_where rt (\<lambda>k. is_sweep_name k \<and> k \<notin> set (map fst d)) d = d"
    by (intro narrow_where_none) auto
  have loop: "scale_sweeps rt True sc co (map fst d) d =
          map_sum id (narrowed rt) (scale_sweeps rt False sc co (map fst d) d)" for sc co
    using scale_sweeps_single [OF _ assms, of "map fst d" rt sc co] assms unfolding n by simp
  show ?thesis
  proof (cases "read_channel_scales h")
    case (Inl e)
    then show ?thesis by (simp add: scale_analog_def)
  next
    case scales: (Inr scales)
    show ?thesis
    proof (cases "read_is_active h")
      case (Inl e)
      with scales show ?thesis by (simp add: scale_analog_def)
    next
      case active: (Inr active)
      show ?thesis
      proof (cases "mask_index scales active")
        case (Inl e)
        with scales active show ?thesis by (simp add: scale_analog_def)
      next
        case sc: (Inr sc)
        show ?thesis
        proof (cases "read_scaling_coefficients h")
          case (Inl e)
          with scales active sc show ?thesis by (simp add: scale_analog_def)
        next
          case (Inr co)
          with scales active sc show ?thesis
            by (simp add: scale_analog_def s dd loop)
        qed
      qed
    qed
  qed
qed


lemma crawl_items_distinct:
  "crawl_items items acc = Inr d \<Longrightarrow> distinct (map fst acc) \<Longrightarrow> distinct (map fst d)"
proof (induction items arbitrary: acc)
  case Nil
  then show ?case by simp
next
  case (Cons item rest)
  obtain name child where item: "item = (name, child)"
    by (cases item)
  show ?case
  proof (cases child)
    case (Group items')
    with Cons.prems item show ?thesis
      by (auto split: sum.splits intro: Cons.IH distinct_update)
  next
    case (Dataset a)
    with Cons.prems item show ?thesis
      by (auto split: sum.splits intro: Cons.IH distinct_update)
  next
    case OtherNode
    with Cons.prems item show ?thesis
      by (auto intro: Cons.IH)
  qed
qed

lemma crawl_h5_group_distinct: "crawl_h5_group g = Inr d \<Longrightarrow> distinct (map fst d)"
  by (cases g) (auto dest: crawl_items_distinct)

lemma fix_acquisition_tree:
  "fix_acquisition_sample_rate h d = Inr (h', d') \<Longrightarrow>
     d' = d \<or> (\<exists>x. d' = AList.update ''header'' x d)"
  by (auto simp: fix_acquisition_sample_rate_def and_then_eq_Inr split: if_splits)

lemma fix_stimulation_tree:
  "fix_stimulation_sample_rate h d = Inr (h', d') \<Longrightarrow>
     d' = d \<or> (\<exists>x. d' = AList.update ''header'' x d)"
  by (auto simp: fix_stimulation_sample_rate_def and_then_eq_Inr split: if_splits)

lemma correct_sample_rates_tree:
  assumes "correct_sample_rates version h d = Inr (h', d')"
  shows "d' = d \<or> (\<exists>x. d' = AList.update ''header'' x d)"
proof (cases "fl_less version 0.9125")
  case False
  with assms show ?thesis
    by (simp add: correct_sample_rates_def)
next
  case True
  with assms obtain h1 d1 where a: "fix_acquisition_sample_rate h d = Inr (h1, d1)"
    and s: "fix_stimulation_sample_rate h1 d1 = Inr (h', d')"
    by (auto simp: correct_sample_rates_def and_then_eq_Inr)
  from fix_acquisition_tree [OF a] fix_stimulation_tree [OF s] show ?thesis
    by auto
qed

lemma read_and_correct_tree:
  assumes "read_and_correct fs p = Inr (header, t, n)"
  shows "\<exists>items d. fs p = Some (H5File items) \<and> crawl_h5_group (Group items) = Inr d
           \<and> ''header'' \<in> fst ` set d \<and> (t = d \<or> (\<exists>x. t = AList.update ''header'' x d))"
proof -
  from assms obtain f where f: "fs p = Some f"
    by (auto simp: read_and_correct_def split: option.splits)
  with assms obtain items where items: "f = H5File items"
    by (cases f) (auto simp: read_and_correct_def h5py_File_def split: if_splits)
  from assms f items obtain d h0 version
    where d: "crawl_h5_group (Group items) = Inr d"
      and h0: "map_of d ''header'' = Some h0"
      and c: "correct_sample_rates version h0 d = Inr (header, t)"
    by (auto simp: read_and_correct_def h5py_File_def and_then_eq_Inr getitem_Dict_Inr
          split: if_splits)
  from h0 have "''header'' \<in> fst ` set d"
    by (metis domI dom_map_of_conv_image_fst)
  with f items d correct_sample_rates_tree [OF c] show ?thesis
    by blast
qed

text \<open>
  Claim C6. With the format \<^verbatim>\<open>raw\<close>, a tree that is returned has the keys of the tree
  the crawler decoded, and under every key but \<^verbatim>\<open>header\<close> the very entry the crawler
  decoded: the scans of every sweep are the counts of the file. And the result of
  \<^verbatim>\<open>single\<close>, error or tree, is the result of \<^verbatim>\<open>double\<close> with the scans of every sweep
  narrowed by \<^verbatim>\<open>astype('single')\<close>, after the computation in double precision; unless
  nothing is scaled, the file declaring no analog channel, when the three formats return
  the same tree.
\<close>

theorem raw_is_unscaled_and_single_is_narrowed_double:
  "(\<forall>t. loadDataFile rt fs p ''raw'' = Inr t \<longrightarrow>
      (\<exists>items d. fs p = Some (H5File items) \<and> crawl_h5_group (Group items) = Inr d
          \<and> map fst t = map fst d \<and> (\<forall>k. k \<noteq> ''header'' \<longrightarrow> map_of t k = map_of d k)))
   \<and> (loadDataFile rt fs p ''single'' = map_sum id (narrowed rt) (loadDataFile rt fs p ''double'')
      \<or> loadDataFile rt fs p ''single'' = loadDataFile rt fs p ''raw''
        \<and> loadDataFile rt fs p ''double'' = loadDataFile rt fs p ''raw'')"
proof (intro conjI allI impI)
  fix t
  assume "loadDataFile rt fs p ''raw'' = Inr t"
  then obtain header n where "read_and_correct fs p = Inr (header, t, n)"
    by (auto simp: load_raw_Inr)
  from read_and_correct_tree [OF this] obtain items d
    where f: "fs p = Some (H5File items)" and d: "crawl_h5_group (Group items) = Inr d"
      and h: "''header'' \<in> fst ` set d"
      and t: "t = d \<or> (\<exists>x. t = AList.update ''header'' x d)"
    by blast
  have "map fst (AList.update ''header'' x d) = map fst d" for x
    using h by (simp add: update_keys)
  with t have "map fst t = map fst d"
    by auto
  moreover from t have "\<forall>k. k \<noteq> ''header'' \<longrightarrow> map_of t k = map_of d k"
    by (auto simp: update_conv')
  ultimately show "\<exists>items d. fs p = Some (H5File items) \<and> crawl_h5_group (Group items) = Inr d
          \<and> map fst t = map fst d \<and> (\<forall>k. k \<noteq> ''header'' \<longrightarrow> map_of t k = map_of d k)"
    using f d by blast
next
  have s: "lower ''single'' = ''single''" and dd: "lower ''double'' = ''double''"
    by (simp_all add: lower_def lower_char_def)
  show "loadDataFile rt fs p ''single'' = map_sum id (narrowed rt) (loadDataFile rt fs p ''double'')
      \<or> loadDataFile rt fs p ''single'' = loadDataFile rt fs p ''raw''
        \<and> loadDataFile rt fs p ''double'' = loadDataFile rt fs p ''raw''"
  proof (cases "read_and_correct fs p")
    case (Inl e)
    then show ?thesis
      by (simp add: loadDataFile_def)
  next
    case (Inr r)
    obtain header t n where r: "r = (header, t, n)"
      by (cases r)
    from read_and_correct_tree [OF Inr [unfolded r]] obtain items d
      where d: "crawl_h5_group (Group items) = Inr d"
        and t: "t = d \<or> (\<exists>x. t = AList.update ''header'' x d)"
      by blast
    from d have "distinct (map fst d)"
      by (rule crawl_h5_group_distinct)
    with t have dist: "distinct (map fst t)"
      by (auto intro: distinct_update)
    show ?thesis
    proof (cases "is_positive n")
      case (Inl e)
      with Inr r show ?thesis
        by (simp add: loadDataFile_def scaling_wanted_def s dd)
    next
      case w: (Inr w)
      show ?thesis
      proof (cases w)
        case True
        with Inr r w scale_analog_single [OF dist] show ?thesis
          by (simp add: loadDataFile_def scaling_wanted_def s dd)
      next
        case False
        with Inr r w show ?thesis
          by (simp add: loadDataFile_def scaling_wanted_def s dd lower_raw)
      qed
    qed
  qed
qed


theorem raw_is_unscaled_and_single_is_narrowed_double_witness:
  "loadDataFile example_runtime one_sweep_fs ''data.h5'' ''raw'' =
     Inr (one_sweep_loaded (NumArr Int16 [1, 2] [Fin 10, Fin 20]))
   \<and> (\<exists>items d. one_sweep_fs ''data.h5'' = Some (H5File items)
          \<and> crawl_h5_group (Group items) = Inr d
          \<and> map fst (one_sweep_loaded (NumArr Int16 [1, 2] [Fin 10, Fin 20])) = map fst d
          \<and> (\<forall>k. k \<noteq> ''header'' \<longrightarrow>
                map_of (one_sweep_loaded (NumArr Int16 [1, 2] [Fin 10, Fin 20])) k = map_of d k))
   \<and> loadDataFile example_runtime one_sweep_fs ''data.h5'' ''double'' =
       Inr (one_sweep_loaded (NumArr Float64 [1, 2] [Fin 5, Fin 10]))
   \<and> loadDataFile example_runtime one_sweep_fs ''data.h5'' ''single'' =
       Inr (narrowed example_runtime (one_sweep_loaded (NumArr Float64 [1, 2] [Fin 5, Fin 10])))
   \<and> loadDataFile example_runtime one_sweep_fs ''data.h5'' ''single'' =
       Inr (one_sweep_loaded (NumArr Float32 [1, 2] [Fin 5, Fin 10]))"
proof -
  have raw: "loadDataFile example_runtime one_sweep_fs ''data.h5'' ''raw'' =
     Inr (one_sweep_loaded (NumArr Int16 [1, 2] [Fin 10, Fin 20]))"
    by code_simp
  have dbl: "loadDataFile example_runtime one_sweep_fs ''data.h5'' ''double'' =
       Inr (one_sweep_loaded (NumArr Float64 [1, 2] [Fin 5, Fin 10]))"
    by code_simp
  have sgl: "loadDataFile example_runtime one_sweep_fs ''data.h5'' ''single'' =
       Inr (one_sweep_loaded (NumArr Float32 [1, 2] [Fin 5, Fin 10]))"
    by code_simp
  have ne: "loadDataFile example_runtime one_sweep_fs ''data.h5'' ''single'' \<noteq>
       loadDataFile example_runtime one_sweep_fs ''data.h5'' ''raw''"
    by (simp add: raw sgl one_sweep_loaded_def)
  note both = raw_is_unscaled_and_single_is_narrowed_double [of example_runtime one_sweep_fs "''data.h5''"]
  from both raw have unchanged: "\<exists>items d. one_sweep_fs ''data.h5'' = Some (H5File items)
          \<and> crawl_h5_group (Group items) = Inr d
          \<and> map fst (one_sweep_loaded (NumArr Int16 [1, 2] [Fin 10, Fin 20])) = map fst d
          \<and> (\<forall>k. k \<noteq> ''header'' \<longrightarrow>
                map_of (one_sweep_loaded (NumArr Int16 [1, 2] [Fin 10, Fin 20])) k = map_of d k)"
    by blast
  from both ne have "loadDataFile example_runtime one_sweep_fs ''data.h5'' ''single'' =
      map_sum id (narrowed example_runtime)
        (loadDataFile example_runtime one_sweep_fs ''data.h5'' ''double'')"
    by blast
  then have "loadDataFile example_runtime one_sweep_fs ''data.h5'' ''single'' =
       Inr (narrowed example_runtime (one_sweep_loaded (NumArr Float64 [1, 2] [Fin 5, Fin 10])))"
    by (simp add: dbl)
  with raw unchanged dbl sgl show ?thesis
    by blast
qed

end
